theory Spec2Isabelle
  imports Main
begin

section \<open>The common-node printers of prettier-move (src/cst/Common.ts)\<close>

text \<open>
  The file \<^verbatim>\<open>Common.ts\<close> holds a dispatch function (its default export), the enum
  \<^verbatim>\<open>Common\<close> of the node kinds it owns, and one print procedure per kind. A print
  procedure receives a path into the syntax tree, the parser options and the
  recursive print callback, and returns a document of prettier's document algebra.
\<close>

subsection \<open>Syntax nodes\<close>

text \<open>
  Modelled from the spec: the class \<^verbatim>\<open>Node\<close> is imported from \<^verbatim>\<open>'..'\<close> and is not among
  the source files. The spec (section 3, Syntax Node, and section 6) gives a node a
  kind, its raw text, its ordered children, the view of its formatting-significant
  children, and the lookups of the previous and the next sibling, with the accessors
  \<^verbatim>\<open>child(i)\<close>, \<^verbatim>\<open>text\<close>, \<^verbatim>\<open>previousSibling\<close>, \<^verbatim>\<open>nextSibling\<close>. Every property that
  \<^verbatim>\<open>Common.ts\<close> reads from a node is a field here; no relation between the fields is
  assumed, so every theorem holds of whatever tree the parser builds. The kind is a
  string, as \<^verbatim>\<open>path.node.type\<close> is compared with string literals in the source.
  The last two fields are the node's raw text span (section 1), as the source
  lines on which the node starts and ends; only the imported helper
  \<^verbatim>\<open>shouldBreakFirstChild\<close> reads them.
\<close>

datatype node = Node
  (type: string)
  (text_of: string)
  (children: "node list")
  (nonFormattingChildren: "node list")
  (previousSibling: "node option")
  (nextSibling: "node option")
  (startRow: nat)
  (endRow: nat)

text \<open>
  \<^verbatim>\<open>node.child(i)\<close>: the i-th child, or \<^verbatim>\<open>null\<close> when there is none.
\<close>

definition child :: "node \<Rightarrow> nat \<Rightarrow> node option" where
  "child n i = (if i < length (children n) then Some (children n ! i) else None)"

subsection \<open>Documents\<close>

text \<open>
  Modelled from the spec: the type \<^verbatim>\<open>Doc\<close> and its builders are imported from prettier
  and are not among the source files. The spec (section 3, Document) lists text,
  concatenation, group with its \<^verbatim>\<open>shouldBreak\<close> flag, indent, the three lines, the
  conditional-on-break fragment with its broken and its flat content, and join,
  which intersperses a separator. A JavaScript string is \<open>Text\<close>, an array of
  documents is \<open>Concat\<close>. \<open>Undefined\<close> is the value JavaScript reads from an array
  out of range: \<^verbatim>\<open>children[0]!\<close> of an empty array is \<^verbatim>\<open>undefined\<close>, and the source
  puts it into a document without a check.
\<close>

datatype doc =
    Text string
  | Concat "doc list"
  | Group doc bool
  | Indent doc
  | Line
  | SoftLine
  | HardLine
  | IfBreak doc doc
  | Undefined

text \<open>
  \<^verbatim>\<open>group(contents, {shouldBreak})\<close>; without options the flag is false.
\<close>

definition group_doc :: "doc \<Rightarrow> bool option \<Rightarrow> doc" where
  "group_doc contents shouldBreak =
     Group contents (case shouldBreak of None \<Rightarrow> False | Some b \<Rightarrow> b)"

text \<open>
  \<^verbatim>\<open>ifBreak(breakContents)\<close>: the flat content defaults to the empty string.
\<close>

definition ifBreak :: "doc \<Rightarrow> doc" where
  "ifBreak breakContents = IfBreak breakContents (Text '''')"

text \<open>
  \<^verbatim>\<open>join(separator, docs)\<close>: the array of the documents with the separator between
  each two of them.
\<close>

fun join_parts :: "doc \<Rightarrow> doc list \<Rightarrow> doc list" where
  "join_parts sep [] = []"
| "join_parts sep [d] = [d]"
| "join_parts sep (d # ds) = d # sep # join_parts sep ds"

definition join :: "doc \<Rightarrow> doc list \<Rightarrow> doc" where
  "join sep docs = Concat (join_parts sep docs)"

text \<open>
  An array read at an index: \<^verbatim>\<open>children[i]!\<close> is \<^verbatim>\<open>undefined\<close> out of range.
\<close>

definition at_index :: "doc list \<Rightarrow> nat \<Rightarrow> doc" where
  "at_index ds i = (if i < length ds then ds ! i else Undefined)"

subsection \<open>Paths, callbacks and the imported helpers\<close>

text \<open>
  An \<^verbatim>\<open>AstPath\<close> is reduced to the node it points at, which is all the procedures
  read from it. \<open>None\<close> is a path whose node is \<^verbatim>\<open>undefined\<close>: that is what
  \<^verbatim>\<open>path.call(print, 'nonFormattingChildren', 0)\<close> hands to the callback when the
  node has no formatting-significant child. Reading a property of
  \<^verbatim>\<open>path.node\<close> on such a path, or of \<^verbatim>\<open>null\<close>, throws a \<^verbatim>\<open>TypeError\<close>.
\<close>

type_synonym path = "node option"

type_synonym printFn = "path \<Rightarrow> doc"

datatype error = TypeError

type_synonym 'o treeFn = "path \<Rightarrow> 'o \<Rightarrow> printFn \<Rightarrow> error + doc"

text \<open>
  \<^verbatim>\<open>path.map(callback, name)\<close> calls the callback on the path of each element of the
  named array, in order; \<^verbatim>\<open>path.call(callback, name, i)\<close> calls it on the path of
  the i-th element, whose node is \<^verbatim>\<open>undefined\<close> out of range.
\<close>

definition path_map :: "(path \<Rightarrow> 'a) \<Rightarrow> node list \<Rightarrow> 'a list" where
  "path_map callback cs = map (\<lambda>c. callback (Some c)) cs"

definition path_call :: "(path \<Rightarrow> 'a) \<Rightarrow> node list \<Rightarrow> nat \<Rightarrow> 'a" where
  "path_call callback cs i = callback (if i < length cs then Some (cs ! i) else None)"

text \<open>
  The argument object of the helper \<^verbatim>\<open>list\<close>, imported from \<^verbatim>\<open>'../utilities'\<close>, which
  is not among the source files. The helper is a parameter \<open>lst\<close> of every
  procedure that calls it, and of the dispatch function; the two properties that
  a call may leave out are optional.
\<close>

record 'o list_args =
  l_path :: path
  l_print :: printFn
  l_options :: 'o
  l_open :: string
  l_close :: string
  l_addWhitespace :: "bool option"
  l_skipChildren :: "nat option"

type_synonym 'o list_fn = "'o list_args \<Rightarrow> doc"

text \<open>
  Modelled from the spec: \<^verbatim>\<open>shouldBreakFirstChild\<close> is imported from \<^verbatim>\<open>'../utilities'\<close>
  and is not among the source files. The spec gives the rule in two sentences.
  Section 4.5: the flag "is forced true if the first child already spans
  multiple source lines in the original, so that a pattern the author already
  wrote multi-line is preserved as multi-line". Section 8: "a named-field pattern
  whose first field starts on its own source line prints with each field on its
  own line". The first child is the first field, that is the first
  formatting-significant child: the first raw child of a delimited list is its
  opening delimiter. The predicate holds when that child starts on a later line
  than the node, whose first line is the line of the opening delimiter, or when
  it runs over more than one line; where there is no such child, it does not
  hold.
\<close>

definition startsOnNewLine :: "node \<Rightarrow> node \<Rightarrow> bool" where
  "startsOnNewLine n c = (startRow n < startRow c)"

definition spansMultipleLines :: "node \<Rightarrow> bool" where
  "spansMultipleLines c = (startRow c < endRow c)"

definition shouldBreakFirstChild :: "path \<Rightarrow> bool" where
  "shouldBreakFirstChild p =
     (case p of
        None \<Rightarrow> False
      | Some n \<Rightarrow>
          (case nonFormattingChildren n of
             [] \<Rightarrow> False
           | c # _ \<Rightarrow> startsOnNewLine n c \<or> spansMultipleLines c))"

subsection \<open>The enum \<^verbatim>\<open>Common\<close>\<close>

text \<open>
  The members of the enum, in the order of their declaration, and the string each
  one stands for.
\<close>

datatype Common =
    PrimitiveType | VariableIdentifier | ModuleAccess | Identifier | RefType
  | FunctionType | FunctionTypeParameters | BinaryOperator | FieldIdentifier
  | BlockIdentifier | Ability | TupleType
  | Annotation | AnnotationItem | AnnotationList | AnnotationExpression
  | BindUnpack | BindFields | BindField | BindList | BindNamedFields
  | BindPositionalFields | BindVar | LambdaBindings
  | Label | Alias | UnaryOperator | FieldInitializeList | ExpressionField

fun Common_value :: "Common \<Rightarrow> string" where
  "Common_value PrimitiveType = ''primitive_type''"
| "Common_value VariableIdentifier = ''variable_identifier''"
| "Common_value ModuleAccess = ''module_access''"
| "Common_value Identifier = ''identifier''"
| "Common_value RefType = ''ref_type''"
| "Common_value FunctionType = ''function_type''"
| "Common_value FunctionTypeParameters = ''function_type_parameters''"
| "Common_value BinaryOperator = ''binary_operator''"
| "Common_value FieldIdentifier = ''field_identifier''"
| "Common_value BlockIdentifier = ''block_identifier''"
| "Common_value Ability = ''ability''"
| "Common_value TupleType = ''tuple_type''"
| "Common_value Annotation = ''annotation''"
| "Common_value AnnotationItem = ''annotation_item''"
| "Common_value AnnotationList = ''annotation_list''"
| "Common_value AnnotationExpression = ''annotation_expr''"
| "Common_value BindUnpack = ''bind_unpack''"
| "Common_value BindFields = ''bind_fields''"
| "Common_value BindField = ''bind_field''"
| "Common_value BindList = ''bind_list''"
| "Common_value BindNamedFields = ''bind_named_fields''"
| "Common_value BindPositionalFields = ''bind_positional_fields''"
| "Common_value BindVar = ''bind_var''"
| "Common_value LambdaBindings = ''lambda_bindings''"
| "Common_value Label = ''label''"
| "Common_value Alias = ''alias''"
| "Common_value UnaryOperator = ''unary_op''"
| "Common_value FieldInitializeList = ''field_initialize_list''"
| "Common_value ExpressionField = ''exp_field''"

subsection \<open>The print procedures\<close>

text \<open>
  Each procedure is written in the order of the source. A procedure that reads
  \<^verbatim>\<open>path.node\<close>, or walks from it by name, throws on a path without a node; one that
  only hands the path on to a helper does not look at it.
\<close>

fun printPrimitiveType :: "'o treeFn" where
  "printPrimitiveType None options print = Inl TypeError"
| "printPrimitiveType (Some n) options print = Inr (Text (text_of n))"

fun printVariableIdentifier :: "'o treeFn" where
  "printVariableIdentifier None options print = Inl TypeError"
| "printVariableIdentifier (Some n) options print = Inr (Text (text_of n))"

fun printModuleAccess :: "'o treeFn" where
  "printModuleAccess None options print = Inl TypeError"
| "printModuleAccess (Some n) options print = Inr (Concat (path_map print (children n)))"

fun printIdentifier :: "'o treeFn" where
  "printIdentifier None options print = Inl TypeError"
| "printIdentifier (Some n) options print = Inr (Text (text_of n))"

fun printRefType :: "'o treeFn" where
  "printRefType None options print = Inl TypeError"
| "printRefType (Some n) options print =
     (case child n 0 of
        None \<Rightarrow> Inl TypeError
      | Some c \<Rightarrow>
          (let ref = (if text_of c = ''&'' then [Text ''&''] else [Text ''&mut ''])
           in Inr (group_doc
                (Concat (ref @ [path_call print (nonFormattingChildren n) 0]))
                None)))"

fun printBinaryOperator :: "'o treeFn" where
  "printBinaryOperator None options print = Inl TypeError"
| "printBinaryOperator (Some n) options print = Inr (Text (text_of n))"

fun printFieldIdentifier :: "'o treeFn" where
  "printFieldIdentifier None options print = Inl TypeError"
| "printFieldIdentifier (Some n) options print = Inr (Text (text_of n))"

definition printAnnotation :: "'o list_fn \<Rightarrow> 'o treeFn" where
  "printAnnotation lst p options print =
     Inr (group_doc
       (Concat [Text ''#'',
          lst \<lparr>l_path = p, l_print = print, l_options = options,
               l_open = ''['', l_close = '']'',
               l_addWhitespace = None, l_skipChildren = None\<rparr>])
       None)"

fun printAnnotationItem :: "'o treeFn" where
  "printAnnotationItem None options print = Inl TypeError"
| "printAnnotationItem (Some n) options print =
     Inr (Concat (path_map print (nonFormattingChildren n)))"

fun printAnnotationList :: "'o list_fn \<Rightarrow> 'o treeFn" where
  "printAnnotationList lst None options print = Inl TypeError"
| "printAnnotationList lst (Some n) options print =
     Inr (Concat
       [path_call print (nonFormattingChildren n) 0,
        lst \<lparr>l_path = Some n, l_print = print, l_options = options,
             l_open = ''('', l_close = '')'',
             l_addWhitespace = None, l_skipChildren = Some 1\<rparr>])"

text \<open>
  The callback of \<^verbatim>\<open>printAnnotationExpression\<close>: a \<^verbatim>\<open>module_access\<close> child after a
  \<^verbatim>\<open>::\<close> token gets the token back in front.
\<close>

fun annotationExpressionChild :: "printFn \<Rightarrow> path \<Rightarrow> error + doc" where
  "annotationExpressionChild print None = Inl TypeError"
| "annotationExpressionChild print (Some c) =
     (if type c = ''module_access''
         \<and> (case previousSibling c of None \<Rightarrow> False | Some s \<Rightarrow> type s = ''::'')
      then Inr (Concat [Text ''::'', print (Some c)])
      else Inr (print (Some c)))"

text \<open>
  The documents of a list of results, or the first error among them: an exception
  thrown inside a callback of \<^verbatim>\<open>path.map\<close> ends the whole call.
\<close>

fun collect :: "(error + doc) list \<Rightarrow> error + doc list" where
  "collect [] = Inr []"
| "collect (Inl e # rs) = Inl e"
| "collect (Inr d # rs) = (case collect rs of Inl e \<Rightarrow> Inl e | Inr ds \<Rightarrow> Inr (d # ds))"

fun printAnnotationExpression :: "'o treeFn" where
  "printAnnotationExpression None options print = Inl TypeError"
| "printAnnotationExpression (Some n) options print =
     (case collect (path_map (annotationExpressionChild print) (nonFormattingChildren n)) of
        Inl e \<Rightarrow> Inl e
      | Inr ds \<Rightarrow> Inr (join (Text '' = '') ds))"

fun printAbility :: "'o treeFn" where
  "printAbility None options print = Inl TypeError"
| "printAbility (Some n) options print = Inr (Text (text_of n))"

fun printTupleType :: "'o treeFn" where
  "printTupleType None options print = Inl TypeError"
| "printTupleType (Some n) options print =
     Inr (group_doc
       (Concat
         [Text ''('',
          Indent SoftLine,
          Indent (join (Concat [Text '','', Line])
                    (path_map print (nonFormattingChildren n))),
          ifBreak (Text '',''),
          SoftLine,
          Text '')''])
       (Some False))"

fun printBindUnpack :: "'o treeFn" where
  "printBindUnpack None options print = Inl TypeError"
| "printBindUnpack (Some n) options print =
     Inr (Concat (path_map print (nonFormattingChildren n)))"

fun printBindFields :: "'o treeFn" where
  "printBindFields None options print = Inl TypeError"
| "printBindFields (Some n) options print =
     Inr (path_call print (nonFormattingChildren n) 0)"

text \<open>
  The test \<^verbatim>\<open>node.previousSibling?.type == 'mut'\<close>, and the callback of
  \<^verbatim>\<open>printBindField\<close>, which puts \<^verbatim>\<open>'mut '\<close> in front of a child that stands after the
  keyword.
\<close>

definition previousSiblingIsMut :: "node \<Rightarrow> bool" where
  "previousSiblingIsMut c =
     (case previousSibling c of None \<Rightarrow> False | Some s \<Rightarrow> type s = ''mut'')"

fun bindFieldChild :: "printFn \<Rightarrow> path \<Rightarrow> error + doc" where
  "bindFieldChild print None = Inl TypeError"
| "bindFieldChild print (Some c) =
     (if previousSiblingIsMut c
      then Inr (Concat [Text ''mut '', print (Some c)])
      else Inr (print (Some c)))"

fun printBindField :: "'o treeFn" where
  "printBindField None options print = Inl TypeError"
| "printBindField (Some n) options print =
     (if (case child n 0 of None \<Rightarrow> False | Some c \<Rightarrow> type c = ''..'')
      then Inr (Text ''..'')
      else
        (case collect (path_map (bindFieldChild print) (nonFormattingChildren n)) of
           Inl e \<Rightarrow> Inl e
         | Inr ds \<Rightarrow> Inr (join (Text '': '') ds)))"

fun printBindList :: "'o list_fn \<Rightarrow> 'o treeFn" where
  "printBindList lst None options print = Inl TypeError"
| "printBindList lst (Some n) options print =
     (if length (nonFormattingChildren n) = 1
      then Inr (join (Text '' '') (path_map print (nonFormattingChildren n)))
      else Inr (group_doc
        (lst \<lparr>l_path = Some n, l_print = print, l_options = options,
               l_open = ''('', l_close = '')'',
               l_addWhitespace = None, l_skipChildren = None\<rparr>)
        None))"

definition printBindNamedFields :: "'o list_fn \<Rightarrow> 'o treeFn" where
  "printBindNamedFields lst p options print =
     Inr (Concat
       [Text '' '',
        group_doc
          (lst \<lparr>l_path = p, l_print = print, l_options = options,
               l_open = ''{'', l_close = ''}'',
               l_addWhitespace = Some True, l_skipChildren = None\<rparr>)
          (Some (shouldBreakFirstChild p))])"

definition printBindPositionalFields :: "'o list_fn \<Rightarrow> 'o treeFn" where
  "printBindPositionalFields lst p options print =
     Inr (group_doc
       (lst \<lparr>l_path = p, l_print = print, l_options = options,
               l_open = ''('', l_close = '')'',
               l_addWhitespace = None, l_skipChildren = None\<rparr>)
       (Some (shouldBreakFirstChild p)))"

fun printBindVar :: "'o treeFn" where
  "printBindVar None options print = Inl TypeError"
| "printBindVar (Some n) options print =
     (let isMut = previousSiblingIsMut n
      in Inr (Concat
           [if isMut then Concat [Text ''mut ''] else Text '''',
            path_call print (nonFormattingChildren n) 0]))"

fun printAlias :: "'o treeFn" where
  "printAlias None options print = Inl TypeError"
| "printAlias (Some n) options print =
     Inr (Concat [Text ''as '', path_call print (nonFormattingChildren n) 0])"

fun printBlockIdentifier :: "'o treeFn" where
  "printBlockIdentifier None options print = Inl TypeError"
| "printBlockIdentifier (Some n) options print =
     Inr (path_call print (nonFormattingChildren n) 0)"

fun printLabel :: "'o treeFn" where
  "printLabel None options print = Inl TypeError"
| "printLabel (Some n) options print =
     (if (case nextSibling n of None \<Rightarrow> False | Some s \<Rightarrow> type s = '':'')
      then Inr (Concat [Text (text_of n), Text '':''])
      else Inr (Text (text_of n)))"

fun printUnaryOperator :: "'o treeFn" where
  "printUnaryOperator None options print = Inl TypeError"
| "printUnaryOperator (Some n) options print = Inr (Text (text_of n))"

definition printFieldInitializeList :: "'o list_fn \<Rightarrow> 'o treeFn" where
  "printFieldInitializeList lst p options print =
     Inr (Concat
       [Text '' '',
        group_doc
          (lst \<lparr>l_path = p, l_print = print, l_options = options,
               l_open = ''{'', l_close = ''}'',
               l_addWhitespace = Some True, l_skipChildren = None\<rparr>)
          (Some (shouldBreakFirstChild p))])"

fun printExpressionField :: "'o treeFn" where
  "printExpressionField None options print = Inl TypeError"
| "printExpressionField (Some n) options print =
     (let children' = path_map print (nonFormattingChildren n)
      in if length children' = 1
         then Inr (at_index children' 0)
         else Inr (group_doc
                (Concat [at_index children' 0, Text '': '', at_index children' 1])
                None))"

definition printLambdaBindings :: "'o list_fn \<Rightarrow> 'o treeFn" where
  "printLambdaBindings lst p options print =
     Inr (group_doc
       (lst \<lparr>l_path = p, l_print = print, l_options = options,
               l_open = ''|'', l_close = ''|'',
               l_addWhitespace = None, l_skipChildren = None\<rparr>)
       None)"

fun printFunctionType :: "'o treeFn" where
  "printFunctionType None options print = Inl TypeError"
| "printFunctionType (Some n) options print =
     (let children' = path_map print (nonFormattingChildren n)
      in if length children' = 0 then Inr (Text ''||'')
         else if length children' = 1 then Inr (at_index children' 0)
         else Inr (join (Text '' -> '') children'))"

definition printFunctionTypeParameters :: "'o list_fn \<Rightarrow> 'o treeFn" where
  "printFunctionTypeParameters lst p options print =
     Inr (group_doc
       (lst \<lparr>l_path = p, l_print = print, l_options = options,
               l_open = ''|'', l_close = ''|'',
               l_addWhitespace = None, l_skipChildren = None\<rparr>)
       None)"

subsection \<open>The dispatch function\<close>

text \<open>
  The default export: a \<^verbatim>\<open>switch\<close> on \<^verbatim>\<open>path.node.type\<close> over the members of the enum,
  in the order of the source, and \<^verbatim>\<open>null\<close> when no case matches. It reads the kind
  of the path's node, so it throws on a path without one.
\<close>

fun default_dispatch :: "'o list_fn \<Rightarrow> path \<Rightarrow> error + 'o treeFn option" where
  "default_dispatch lst None = Inl TypeError"
| "default_dispatch lst (Some n) =
     (let t = type n in
      if t = Common_value PrimitiveType then Inr (Some printPrimitiveType)
      else if t = Common_value VariableIdentifier then Inr (Some printVariableIdentifier)
      else if t = Common_value ModuleAccess then Inr (Some printModuleAccess)
      else if t = Common_value Identifier then Inr (Some printIdentifier)
      else if t = Common_value RefType then Inr (Some printRefType)
      else if t = Common_value FunctionType then Inr (Some printFunctionType)
      else if t = Common_value FunctionTypeParameters
        then Inr (Some (printFunctionTypeParameters lst))
      else if t = Common_value BinaryOperator then Inr (Some printBinaryOperator)
      else if t = Common_value FieldIdentifier then Inr (Some printFieldIdentifier)
      else if t = Common_value Ability then Inr (Some printAbility)
      else if t = Common_value TupleType then Inr (Some printTupleType)
      else if t = Common_value Annotation then Inr (Some (printAnnotation lst))
      else if t = Common_value AnnotationItem then Inr (Some printAnnotationItem)
      else if t = Common_value AnnotationList then Inr (Some (printAnnotationList lst))
      else if t = Common_value AnnotationExpression
        then Inr (Some printAnnotationExpression)
      else if t = Common_value BindUnpack then Inr (Some printBindUnpack)
      else if t = Common_value BindFields then Inr (Some printBindFields)
      else if t = Common_value BindField then Inr (Some printBindField)
      else if t = Common_value BindList then Inr (Some (printBindList lst))
      else if t = Common_value BindNamedFields then Inr (Some (printBindNamedFields lst))
      else if t = Common_value BindPositionalFields
        then Inr (Some (printBindPositionalFields lst))
      else if t = Common_value BindVar then Inr (Some printBindVar)
      else if t = Common_value Label then Inr (Some printLabel)
      else if t = Common_value Alias then Inr (Some printAlias)
      else if t = Common_value BlockIdentifier then Inr (Some printBlockIdentifier)
      else if t = Common_value UnaryOperator then Inr (Some printUnaryOperator)
      else if t = Common_value FieldInitializeList
        then Inr (Some (printFieldInitializeList lst))
      else if t = Common_value ExpressionField then Inr (Some printExpressionField)
      else if t = Common_value LambdaBindings then Inr (Some (printLambdaBindings lst))
      else Inr None)"

subsection \<open>Example inputs\<close>


definition leaf :: "string \<Rightarrow> string \<Rightarrow> node" where
  "leaf k s = Node k s [] [] None None 0 0"

definition ex_print :: printFn where
  "ex_print p = (case p of None \<Rightarrow> Text '''' | Some c \<Rightarrow> Text (text_of c))"

definition ex_list :: "unit list_fn" where
  "ex_list a =
     Concat (Text (l_open a)
       # path_map (l_print a)
           (case l_path a of None \<Rightarrow> [] | Some n \<Rightarrow> nonFormattingChildren n)
       @ [Text (l_close a)])"

text \<open>
  The pattern \<^verbatim>\<open>f: mut x\<close> of a field: the bound value is a \<^verbatim>\<open>bind_var\<close> node
  that stands after the keyword \<^verbatim>\<open>mut\<close>, which is a token of the field and the
  previous sibling of the bound value.
\<close>

definition ex_mut_var :: node where
  "ex_mut_var =
     Node ''bind_var'' ''x''
       [leaf ''variable_identifier'' ''x''] [leaf ''variable_identifier'' ''x'']
       (Some (leaf ''mut'' ''mut'')) None 0 0"

definition ex_mut_field :: node where
  "ex_mut_field =
     Node ''bind_field'' ''f: mut x''
       [leaf ''field_identifier'' ''f'', leaf '':'' '':'', leaf ''mut'' ''mut'', ex_mut_var]
       [leaf ''field_identifier'' ''f'', ex_mut_var]
       None None 0 0"

text \<open>
  The callback that the tree walk hands to a procedure, on the examples: it asks
  the dispatch function for the procedure of the path it is called on and
  returns the document of that procedure, whose own callback prints a node as
  its text.
\<close>

definition ex_walk :: printFn where
  "ex_walk p =
     (case default_dispatch ex_list p of
        Inr (Some f) \<Rightarrow> (case f p () ex_print of Inr d \<Rightarrow> d | Inl e \<Rightarrow> Undefined)
      | Inr None \<Rightarrow> ex_print p
      | Inl e \<Rightarrow> ex_print p)"





section \<open>Properties\<close>

subsection \<open>Helper facts\<close>

lemma collect_map_Inr: "collect (map (\<lambda>c. Inr (f c)) cs) = Inr (map f cs)"
  by (induction cs) simp_all

lemma bindFieldChild_Some:
  "bindFieldChild print (Some c)
     = Inr (if previousSiblingIsMut c then Concat [Text ''mut '', print (Some c)]
            else print (Some c))"
  by simp

lemma collect_bindFieldChild:
  "collect (path_map (bindFieldChild print) cs)
     = Inr (map (\<lambda>c. if previousSiblingIsMut c then Concat [Text ''mut '', print (Some c)]
                       else print (Some c)) cs)"
  unfolding path_map_def bindFieldChild_Some by (rule collect_map_Inr)

lemma previousSiblingIsMut_iff:
  "previousSiblingIsMut c \<longleftrightarrow> (\<exists>s. previousSibling c = Some s \<and> type s = ''mut'')"
  by (simp add: previousSiblingIsMut_def split: option.splits)

lemma dispatch_some:
  "\<exists>f. default_dispatch lst (Some n) = Inr (Some f)" if "type n = Common_value k"
  using that by (cases k) simp_all

lemma dispatch_none:
  assumes "\<And>k. type n \<noteq> Common_value k"
  shows "default_dispatch lst (Some n) = Inr None"
  using assms[of PrimitiveType] assms[of VariableIdentifier] assms[of ModuleAccess]
    assms[of Identifier] assms[of RefType] assms[of FunctionType]
    assms[of FunctionTypeParameters] assms[of BinaryOperator] assms[of FieldIdentifier]
    assms[of BlockIdentifier] assms[of Ability] assms[of TupleType]
    assms[of Annotation] assms[of AnnotationItem] assms[of AnnotationList]
    assms[of AnnotationExpression] assms[of BindUnpack] assms[of BindFields]
    assms[of BindField] assms[of BindList] assms[of BindNamedFields]
    assms[of BindPositionalFields] assms[of BindVar] assms[of LambdaBindings]
    assms[of Label] assms[of Alias] assms[of UnaryOperator]
    assms[of FieldInitializeList] assms[of ExpressionField]
  by simp

lemma dispatch_leaf_kinds:
  "type n = ''primitive_type'' \<Longrightarrow>
     default_dispatch lst (Some n) = Inr (Some printPrimitiveType)"
  "type n = ''variable_identifier'' \<Longrightarrow>
     default_dispatch lst (Some n) = Inr (Some printVariableIdentifier)"
  "type n = ''identifier'' \<Longrightarrow>
     default_dispatch lst (Some n) = Inr (Some printIdentifier)"
  "type n = ''binary_operator'' \<Longrightarrow>
     default_dispatch lst (Some n) = Inr (Some printBinaryOperator)"
  "type n = ''field_identifier'' \<Longrightarrow>
     default_dispatch lst (Some n) = Inr (Some printFieldIdentifier)"
  "type n = ''ability'' \<Longrightarrow>
     default_dispatch lst (Some n) = Inr (Some printAbility)"
  "type n = ''unary_op'' \<Longrightarrow>
     default_dispatch lst (Some n) = Inr (Some printUnaryOperator)"
  by simp_all

subsection \<open>Function types\<close>

text \<open>
  C1. For every \<^verbatim>\<open>function_type\<close> node the dispatch function selects
  \<^verbatim>\<open>printFunctionType\<close>. With no formatting-significant child the procedure returns
  the literal \<^verbatim>\<open>||\<close>; with exactly one it returns that child's document as it is,
  without an arrow; with exactly two it returns the two documents with the
  separator \<^verbatim>\<open>' -> '\<close> between them, which is what \<^verbatim>\<open>join\<close> builds.
\<close>

theorem function_type_zero_one_two:
  assumes "type n = ''function_type''"
  shows "default_dispatch lst (Some n) = Inr (Some printFunctionType)
    \<and> (nonFormattingChildren n = [] \<longrightarrow>
          printFunctionType (Some n) options print = Inr (Text ''||''))
    \<and> (\<forall>a. nonFormattingChildren n = [a] \<longrightarrow>
          printFunctionType (Some n) options print = Inr (print (Some a)))
    \<and> (\<forall>a b. nonFormattingChildren n = [a, b] \<longrightarrow>
          printFunctionType (Some n) options print
            = Inr (join (Text '' -> '') [print (Some a), print (Some b)])
          \<and> join (Text '' -> '') [print (Some a), print (Some b)]
            = Concat [print (Some a), Text '' -> '', print (Some b)])"
  using assms by (simp add: path_map_def at_index_def join_def)

theorem function_type_zero_one_two_witness:
  "printFunctionType (Some (Node ''function_type'' ''||'' [leaf ''||'' ''||''] [] None None 0 0))
      () ex_print
     = Inr (Text ''||'')
   \<and> printFunctionType
       (Some (Node ''function_type'' ''|u8|''
          [leaf ''function_type_parameters'' ''|u8|'']
          [leaf ''function_type_parameters'' ''|u8|''] None None 0 0))
       () ex_print
     = Inr (Text ''|u8|'')
   \<and> printFunctionType
       (Some (Node ''function_type'' ''|u8| -> bool''
          [leaf ''function_type_parameters'' ''|u8|'', leaf ''->'' ''->'',
           leaf ''primitive_type'' ''bool'']
          [leaf ''function_type_parameters'' ''|u8|'', leaf ''primitive_type'' ''bool'']
          None None 0 0))
       () ex_print
     = Inr (Concat [Text ''|u8|'', Text '' -> '', Text ''bool''])"
  using
    function_type_zero_one_two
      [of "Node ''function_type'' ''||'' [leaf ''||'' ''||''] [] None None 0 0"
          ex_list "()" ex_print]
    function_type_zero_one_two
      [of "Node ''function_type'' ''|u8|''
             [leaf ''function_type_parameters'' ''|u8|'']
             [leaf ''function_type_parameters'' ''|u8|''] None None 0 0"
          ex_list "()" ex_print]
    function_type_zero_one_two
      [of "Node ''function_type'' ''|u8| -> bool''
             [leaf ''function_type_parameters'' ''|u8|'', leaf ''->'' ''->'',
              leaf ''primitive_type'' ''bool'']
             [leaf ''function_type_parameters'' ''|u8|'', leaf ''primitive_type'' ''bool'']
             None None 0 0"
          ex_list "()" ex_print]
  by (simp add: ex_print_def leaf_def)

subsection \<open>Tuple types\<close>

text \<open>
  C2. For every \<^verbatim>\<open>tuple_type\<close> node the dispatch function selects
  \<^verbatim>\<open>printTupleType\<close>, which returns a group whose \<^verbatim>\<open>shouldBreak\<close> flag is false and
  whose content is, in this order: the opening parenthesis, an indented soft
  line, the indented join of the formatting-significant children's documents
  with a comma and a line as the separator, an \<^verbatim>\<open>IfBreak\<close> whose broken content is
  a comma and whose flat content is empty, a soft line, and the closing
  parenthesis.
\<close>

theorem tuple_type_document:
  assumes "type n = ''tuple_type''"
  shows "default_dispatch lst (Some n) = Inr (Some printTupleType)
    \<and> printTupleType (Some n) options print
      = Inr (Group
          (Concat
            [Text ''('',
             Indent SoftLine,
             Indent (join (Concat [Text '','', Line])
                       (map (\<lambda>c. print (Some c)) (nonFormattingChildren n))),
             IfBreak (Text '','') (Text ''''),
             SoftLine,
             Text '')''])
          False)"
  using assms by (simp add: path_map_def group_doc_def ifBreak_def)

theorem tuple_type_document_witness:
  "printTupleType
     (Some (Node ''tuple_type'' ''(u8, bool)''
        [leaf ''('' ''('', leaf ''primitive_type'' ''u8'', leaf '','' '','',
         leaf ''primitive_type'' ''bool'', leaf '')'' '')'']
        [leaf ''primitive_type'' ''u8'', leaf ''primitive_type'' ''bool'']
        None None 0 0))
     () ex_print
   = Inr (Group
       (Concat
         [Text ''('',
          Indent SoftLine,
          Indent (Concat [Text ''u8'', Concat [Text '','', Line], Text ''bool'']),
          IfBreak (Text '','') (Text ''''),
          SoftLine,
          Text '')''])
       False)"
  using tuple_type_document
    [of "Node ''tuple_type'' ''(u8, bool)''
           [leaf ''('' ''('', leaf ''primitive_type'' ''u8'', leaf '','' '','',
            leaf ''primitive_type'' ''bool'', leaf '')'' '')'']
           [leaf ''primitive_type'' ''u8'', leaf ''primitive_type'' ''bool'']
           None None 0 0"
        ex_list "()" ex_print]
  by (simp add: ex_print_def leaf_def join_def)

subsection \<open>Reference types\<close>

text \<open>
  C3. For every \<^verbatim>\<open>ref_type\<close> node with a first child and a first
  formatting-significant child, the dispatch function selects \<^verbatim>\<open>printRefType\<close>,
  which returns a group of two elements: the text \<^verbatim>\<open>&\<close> when the text of the
  first child is \<^verbatim>\<open>&\<close>, and the text \<^verbatim>\<open>&mut\<close> with a space after it otherwise, so
  also when the first child is the marker \<^verbatim>\<open>&mut\<close>; then the document of the first
  formatting-significant child. The kind of the first child is not read.
\<close>

theorem ref_type_document:
  assumes "type n = ''ref_type''"
    and "children n = k # ks"
    and "nonFormattingChildren n = c # cs"
  shows "default_dispatch lst (Some n) = Inr (Some printRefType)
    \<and> (text_of k = ''&'' \<longrightarrow>
          printRefType (Some n) options print
            = Inr (Group (Concat [Text ''&'', print (Some c)]) False))
    \<and> (text_of k \<noteq> ''&'' \<longrightarrow>
          printRefType (Some n) options print
            = Inr (Group (Concat [Text ''&mut '', print (Some c)]) False))
    \<and> (text_of k = ''&mut'' \<longrightarrow>
          printRefType (Some n) options print
            = Inr (Group (Concat [Text ''&mut '', print (Some c)]) False))"
  using assms by (simp add: child_def path_call_def group_doc_def)

theorem ref_type_document_witness:
  "printRefType
     (Some (Node ''ref_type'' ''&mut T''
        [leaf ''&mut'' ''&mut'', leaf ''type_identifier'' ''T'']
        [leaf ''type_identifier'' ''T''] None None 0 0))
     () ex_print
     = Inr (Group (Concat [Text ''&mut '', Text ''T'']) False)
   \<and> printRefType
     (Some (Node ''ref_type'' ''&T''
        [leaf ''&'' ''&'', leaf ''type_identifier'' ''T'']
        [leaf ''type_identifier'' ''T''] None None 0 0))
     () ex_print
     = Inr (Group (Concat [Text ''&'', Text ''T'']) False)"
  using
    ref_type_document
      [of "Node ''ref_type'' ''&mut T''
             [leaf ''&mut'' ''&mut'', leaf ''type_identifier'' ''T'']
             [leaf ''type_identifier'' ''T''] None None 0 0"
          "leaf ''&mut'' ''&mut''" "[leaf ''type_identifier'' ''T'']"
          "leaf ''type_identifier'' ''T''" "[]" ex_list "()" ex_print]
    ref_type_document
      [of "Node ''ref_type'' ''&T''
             [leaf ''&'' ''&'', leaf ''type_identifier'' ''T'']
             [leaf ''type_identifier'' ''T''] None None 0 0"
          "leaf ''&'' ''&''" "[leaf ''type_identifier'' ''T'']"
          "leaf ''type_identifier'' ''T''" "[]" ex_list "()" ex_print]
  by (simp add: ex_print_def leaf_def)

subsection \<open>The mutability keyword in patterns\<close>

text \<open>
  Each of the two procedures puts \<^verbatim>\<open>mut\<close> and a space in front when the previous
  sibling of the node it looks at is the keyword: \<^verbatim>\<open>printBindVar\<close> looks at its
  own node, the callback of \<^verbatim>\<open>printBindField\<close> at each formatting-significant
  child. For a bound value that is a \<^verbatim>\<open>bind_var\<close> after the keyword the two
  tests read the same sibling of the same node. So when the callback prints the
  bound value with \<^verbatim>\<open>printBindVar\<close>, the procedure that the dispatch function
  selects for it, the document of the field holds the prefix twice.
\<close>

lemma bind_field_prefixes_bind_var_twice:
  assumes "\<not> (\<exists>k ks. children m = k # ks \<and> type k = ''..'')"
    and "nonFormattingChildren m = [f, v]"
    and "\<not> previousSiblingIsMut f"
    and "previousSiblingIsMut v"
    and "nonFormattingChildren v = c # cs"
    and "printBindVar (Some v) options print = Inr (print (Some v))"
  shows "printBindField (Some m) options print
    = Inr (Concat [print (Some f), Text '': '',
        Concat [Text ''mut '', Concat [Concat [Text ''mut ''], print (Some c)]]])"
proof -
  have rest: "\<not> (case child m 0 of None \<Rightarrow> False | Some k \<Rightarrow> type k = ''..'')"
    using assms(1) by (cases "children m") (simp_all add: child_def)
  have "printBindVar (Some v) options print
      = Inr (Concat [Concat [Text ''mut ''], print (Some c)])"
    using assms(4,5) by (simp add: path_call_def)
  with assms(6) have v: "print (Some v) = Concat [Concat [Text ''mut ''], print (Some c)]"
    by simp
  have "printBindField (Some m) options print
      = Inr (Concat [print (Some f), Text '': '', Concat [Text ''mut '', print (Some v)]])"
    using rest assms(2,3,4) by (simp add: collect_bindFieldChild join_def)
  then show ?thesis by (simp only: v)
qed

text \<open>
  C4. The claim says that a pattern \<^verbatim>\<open>mut x\<close> prints as \<^verbatim>\<open>mut x\<close> for \<^verbatim>\<open>bind_var\<close>
  and for the bound value of \<^verbatim>\<open>bind_field\<close> alike. The code does so for the
  \<^verbatim>\<open>bind_var\<close> node by itself, and not for the field \<^verbatim>\<open>f: mut x\<close>: the dispatch
  function selects \<^verbatim>\<open>printBindField\<close> for the field and \<^verbatim>\<open>printBindVar\<close> for its
  bound value, the bound value prints as \<^verbatim>\<open>mut x\<close>, and the field prints as
  \<^verbatim>\<open>f: mut mut x\<close>.
\<close>

theorem bind_field_prints_mut_twice:
  "default_dispatch ex_list (Some ex_mut_field) = Inr (Some printBindField)
   \<and> default_dispatch ex_list (Some ex_mut_var) = Inr (Some printBindVar)
   \<and> nonFormattingChildren ex_mut_field = [leaf ''field_identifier'' ''f'', ex_mut_var]
   \<and> previousSibling ex_mut_var = Some (leaf ''mut'' ''mut'')
   \<and> printBindVar (Some ex_mut_var) () ex_print
     = Inr (Concat [Concat [Text ''mut ''], Text ''x''])
   \<and> ex_walk (Some (leaf ''field_identifier'' ''f'')) = Text ''f''
   \<and> ex_walk (Some ex_mut_var) = Concat [Concat [Text ''mut ''], Text ''x'']
   \<and> printBindField (Some ex_mut_field) () ex_walk
     = Inr (Concat [Text ''f'', Text '': '',
         Concat [Text ''mut '', Concat [Concat [Text ''mut ''], Text ''x'']]])"
proof -
  have var: "printBindVar (Some ex_mut_var) () ex_print
      = Inr (Concat [Concat [Text ''mut ''], Text ''x''])"
    by (simp add: ex_mut_var_def leaf_def ex_print_def previousSiblingIsMut_def
        path_call_def)
  have dv: "default_dispatch ex_list (Some ex_mut_var) = Inr (Some printBindVar)"
    by (simp add: ex_mut_var_def)
  have wf: "ex_walk (Some (leaf ''field_identifier'' ''f'')) = Text ''f''"
    by (simp add: ex_walk_def leaf_def)
  have wx: "ex_walk (Some (leaf ''variable_identifier'' ''x'')) = Text ''x''"
    by (simp add: ex_walk_def leaf_def)
  have wv: "ex_walk (Some ex_mut_var) = Concat [Concat [Text ''mut ''], Text ''x'']"
    unfolding ex_walk_def dv using var by simp
  have step: "printBindVar (Some ex_mut_var) () ex_walk = Inr (ex_walk (Some ex_mut_var))"
    unfolding wv using wx
    by (simp add: ex_mut_var_def previousSiblingIsMut_def path_call_def leaf_def)
  have "printBindField (Some ex_mut_field) () ex_walk
      = Inr (Concat [ex_walk (Some (leaf ''field_identifier'' ''f'')), Text '': '',
          Concat [Text ''mut '', Concat [Concat [Text ''mut ''],
            ex_walk (Some (leaf ''variable_identifier'' ''x''))]]])"
  proof (rule bind_field_prefixes_bind_var_twice[OF _ _ _ _ _ step])
    show "\<not> (\<exists>k ks. children ex_mut_field = k # ks \<and> type k = ''..'')"
      by (simp add: ex_mut_field_def leaf_def)
    show "nonFormattingChildren ex_mut_field = [leaf ''field_identifier'' ''f'', ex_mut_var]"
      by (simp add: ex_mut_field_def)
    show "\<not> previousSiblingIsMut (leaf ''field_identifier'' ''f'')"
      by (simp add: previousSiblingIsMut_def leaf_def)
    show "previousSiblingIsMut ex_mut_var"
      by (simp add: previousSiblingIsMut_def ex_mut_var_def leaf_def)
    show "nonFormattingChildren ex_mut_var = leaf ''variable_identifier'' ''x'' # []"
      by (simp add: ex_mut_var_def)
  qed
  then have field: "printBindField (Some ex_mut_field) () ex_walk
      = Inr (Concat [Text ''f'', Text '': '',
          Concat [Text ''mut '', Concat [Concat [Text ''mut ''], Text ''x'']]])"
    by (simp only: wf wx)
  have df: "default_dispatch ex_list (Some ex_mut_field) = Inr (Some printBindField)"
    by (simp add: ex_mut_field_def)
  have "nonFormattingChildren ex_mut_field = [leaf ''field_identifier'' ''f'', ex_mut_var]"
    and "previousSibling ex_mut_var = Some (leaf ''mut'' ''mut'')"
    by (simp_all add: ex_mut_field_def ex_mut_var_def)
  with df dv var wf wv field show ?thesis by blast
qed

subsection \<open>Bind fields\<close>

text \<open>
  C5. The rest form of a field is the rest token alone (spec, section 4.5): where
  the first child of a node is the rest token, that token is its sole child. For
  every such \<^verbatim>\<open>bind_field\<close> node the dispatch function selects
  \<^verbatim>\<open>printBindField\<close>, which returns the literal \<^verbatim>\<open>..\<close> exactly when the sole child
  of the node is the rest token. Otherwise it returns the join, with a colon and
  a space as the separator, of the documents of the formatting-significant
  children, each as the callback of the procedure prints it: a single child
  gives the join of its one document, a field identifier and a bound value give
  the two documents with the separator between them.
\<close>

theorem bind_field_rest_or_join:
  assumes "type n = ''bind_field''"
    and "\<forall>c cs. children n = c # cs \<and> type c = ''..'' \<longrightarrow> cs = []"
  shows "default_dispatch lst (Some n) = Inr (Some printBindField)
    \<and> ((printBindField (Some n) options print = Inr (Text ''..''))
         = (\<exists>c. children n = [c] \<and> type c = ''..''))
    \<and> (\<not> (\<exists>c. children n = [c] \<and> type c = ''..'') \<longrightarrow>
          printBindField (Some n) options print
            = Inr (join (Text '': '')
                (map (\<lambda>v. if \<exists>s. previousSibling v = Some s \<and> type s = ''mut''
                           then Concat [Text ''mut '', print (Some v)]
                           else print (Some v))
                   (nonFormattingChildren n))))
    \<and> (\<forall>f. \<not> (\<exists>c. children n = [c] \<and> type c = ''..'')
          \<and> nonFormattingChildren n = [f]
          \<and> \<not> (\<exists>s. previousSibling f = Some s \<and> type s = ''mut'') \<longrightarrow>
          printBindField (Some n) options print = Inr (Concat [print (Some f)]))
    \<and> (\<forall>f v. \<not> (\<exists>c. children n = [c] \<and> type c = ''..'')
          \<and> nonFormattingChildren n = [f, v]
          \<and> \<not> (\<exists>s. previousSibling f = Some s \<and> type s = ''mut'')
          \<and> \<not> (\<exists>s. previousSibling v = Some s \<and> type s = ''mut'') \<longrightarrow>
          printBindField (Some n) options print
            = Inr (Concat [print (Some f), Text '': '', print (Some v)]))"
proof -
  have rest: "(case child n 0 of None \<Rightarrow> False | Some k \<Rightarrow> type k = ''..'')
      = (\<exists>c. children n = [c] \<and> type c = ''..'')"
    using assms(2) by (cases "children n") (auto simp: child_def)
  have field: "printBindField (Some n) options print
      = (if \<exists>c. children n = [c] \<and> type c = ''..'' then Inr (Text ''..'')
         else Inr (join (Text '': '')
          (map (\<lambda>v. if \<exists>s. previousSibling v = Some s \<and> type s = ''mut''
                     then Concat [Text ''mut '', print (Some v)]
                     else print (Some v))
             (nonFormattingChildren n))))"
  proof (cases "\<exists>c. children n = [c] \<and> type c = ''..''")
    case True
    with rest have "case child n 0 of None \<Rightarrow> False | Some k \<Rightarrow> type k = ''..''"
      by blast
    then show ?thesis unfolding if_P[OF True] by simp
  next
    case False
    with rest have "\<not> (case child n 0 of None \<Rightarrow> False | Some k \<Rightarrow> type k = ''..'')"
      by blast
    then show ?thesis unfolding if_not_P[OF False]
      by (simp add: collect_bindFieldChild previousSiblingIsMut_iff)
  qed
  show ?thesis
    using assms(1) unfolding field by (auto simp: join_def)
qed

theorem bind_field_rest_or_join_witness:
  "printBindField
     (Some (Node ''bind_field'' ''..'' [leaf ''..'' ''..''] [] None None 0 0)) () ex_print
     = Inr (Text ''..'')
   \<and> printBindField
     (Some (Node ''bind_field'' ''f'' [leaf ''field_identifier'' ''f'']
        [leaf ''field_identifier'' ''f''] None None 0 0)) () ex_print
     = Inr (Concat [Text ''f''])
   \<and> printBindField
     (Some (Node ''bind_field'' ''f: x''
        [leaf ''field_identifier'' ''f'', leaf '':'' '':'', leaf ''bind_var'' ''x'']
        [leaf ''field_identifier'' ''f'', leaf ''bind_var'' ''x''] None None 0 0))
     () ex_print
     = Inr (Concat [Text ''f'', Text '': '', Text ''x''])"
  using
    bind_field_rest_or_join
      [of "Node ''bind_field'' ''..'' [leaf ''..'' ''..''] [] None None 0 0"
          ex_list "()" ex_print]
    bind_field_rest_or_join
      [of "Node ''bind_field'' ''f'' [leaf ''field_identifier'' ''f'']
             [leaf ''field_identifier'' ''f''] None None 0 0"
          ex_list "()" ex_print]
    bind_field_rest_or_join
      [of "Node ''bind_field'' ''f: x''
             [leaf ''field_identifier'' ''f'', leaf '':'' '':'', leaf ''bind_var'' ''x'']
             [leaf ''field_identifier'' ''f'', leaf ''bind_var'' ''x''] None None 0 0"
          ex_list "()" ex_print]
  by (simp add: ex_print_def leaf_def child_def path_map_def join_def
      previousSiblingIsMut_def)

subsection \<open>Leaf kinds\<close>

text \<open>
  C6. For every node of one of the seven kinds \<^verbatim>\<open>primitive_type\<close>,
  \<^verbatim>\<open>variable_identifier\<close>, \<^verbatim>\<open>identifier\<close>, \<^verbatim>\<open>binary_operator\<close>, \<^verbatim>\<open>field_identifier\<close>,
  \<^verbatim>\<open>ability\<close> and \<^verbatim>\<open>unary_op\<close>, the dispatch function selects a procedure, and
  that procedure returns the text of the node as its document, not an error,
  whatever the options and the callback are. Each of the seven procedures does so
  on every node.
\<close>

theorem leaf_kinds_print_text:
  assumes "type n \<in> {''primitive_type'', ''variable_identifier'', ''identifier'',
      ''binary_operator'', ''field_identifier'', ''ability'', ''unary_op''}"
  shows "(\<exists>f. default_dispatch lst (Some n) = Inr (Some f)
            \<and> f (Some n) options print = Inr (Text (text_of n)))
    \<and> printPrimitiveType (Some n) options print = Inr (Text (text_of n))
    \<and> printVariableIdentifier (Some n) options print = Inr (Text (text_of n))
    \<and> printIdentifier (Some n) options print = Inr (Text (text_of n))
    \<and> printBinaryOperator (Some n) options print = Inr (Text (text_of n))
    \<and> printFieldIdentifier (Some n) options print = Inr (Text (text_of n))
    \<and> printAbility (Some n) options print = Inr (Text (text_of n))
    \<and> printUnaryOperator (Some n) options print = Inr (Text (text_of n))"
proof -
  have "\<exists>f. default_dispatch lst (Some n) = Inr (Some f)
            \<and> f (Some n) options print = Inr (Text (text_of n))"
    using assms dispatch_leaf_kinds[of n lst]
    by (elim insertE emptyE) simp_all
  then show ?thesis by simp
qed

theorem leaf_kinds_print_text_witness:
  "default_dispatch ex_list (Some (leaf ''primitive_type'' ''u64''))
     = Inr (Some printPrimitiveType)
   \<and> printPrimitiveType (Some (leaf ''primitive_type'' ''u64'')) () ex_print
     = Inr (Text ''u64'')
   \<and> default_dispatch ex_list (Some (leaf ''unary_op'' ''!''))
     = Inr (Some printUnaryOperator)
   \<and> printUnaryOperator (Some (leaf ''unary_op'' ''!'')) () ex_print = Inr (Text ''!'')
   \<and> printBinaryOperator (Some (leaf ''binary_operator'' ''+'')) () ex_print
     = Inr (Text ''+'')"
  using
    leaf_kinds_print_text [of "leaf ''primitive_type'' ''u64''" ex_list "()" ex_print]
    leaf_kinds_print_text [of "leaf ''unary_op'' ''!''" ex_list "()" ex_print]
    leaf_kinds_print_text [of "leaf ''binary_operator'' ''+''" ex_list "()" ex_print]
  by (simp add: leaf_def)

subsection \<open>Field lists keep the author's line break\<close>



subsection \<open>The dispatch function\<close>

text \<open>
  C8. On a path with a node the dispatch function returns a value, not an error.
  It returns a procedure exactly when the kind of the node is the string of a
  member of the enum \<^verbatim>\<open>Common\<close>, and \<^verbatim>\<open>null\<close> exactly when it is the string of no
  member. The result is a function of the kind alone: two nodes of the same
  kind get the same result, whatever their text, children and siblings are.
\<close>

theorem dispatch_exactly_Common:
  "(\<exists>r. default_dispatch lst (Some n) = Inr r)
   \<and> ((\<exists>f. default_dispatch lst (Some n) = Inr (Some f))
        = (\<exists>k. type n = Common_value k))
   \<and> ((default_dispatch lst (Some n) = Inr None)
        = (\<not> (\<exists>k. type n = Common_value k)))
   \<and> default_dispatch lst (Some (Node t x cs nf ps ns r e))
       = default_dispatch lst (Some (Node t x' cs' nf' ps' ns' r' e'))"
proof -
  have some: "\<exists>f. default_dispatch lst (Some n) = Inr (Some f)"
    if "\<exists>k. type n = Common_value k"
    using that dispatch_some by blast
  have none: "default_dispatch lst (Some n) = Inr None"
    if "\<not> (\<exists>k. type n = Common_value k)"
    using that dispatch_none by blast
  have total: "\<exists>r. default_dispatch lst (Some n) = Inr r"
    using some none by blast
  have kind: "default_dispatch lst (Some (Node t x cs nf ps ns r e))
       = default_dispatch lst (Some (Node t x' cs' nf' ps' ns' r' e'))"
    by (simp only: default_dispatch.simps node.sel)
  from some none have
    "(\<exists>f. default_dispatch lst (Some n) = Inr (Some f)) = (\<exists>k. type n = Common_value k)"
    "(default_dispatch lst (Some n) = Inr None) = (\<not> (\<exists>k. type n = Common_value k))"
    by force+
  with total kind show ?thesis by blast
qed

theorem dispatch_exactly_Common_witness:
  "default_dispatch ex_list (Some (leaf ''label'' ''a'')) = Inr (Some printLabel)
   \<and> default_dispatch ex_list (Some (leaf ''module_body'' ''{}'')) = Inr None"
  using
    dispatch_exactly_Common [of ex_list "leaf ''label'' ''a''"]
    dispatch_exactly_Common [of ex_list "leaf ''module_body'' ''{}''"]
  by (simp add: leaf_def)

subsection \<open>Expression fields\<close>

text \<open>
  C10. For every \<^verbatim>\<open>exp_field\<close> node with three or more formatting-significant
  children, the dispatch function selects \<^verbatim>\<open>printExpressionField\<close>, which returns
  the group of the first child's document, the separator and the second child's
  document; it returns a document, not an error, and the documents of the
  children after the second are not part of it.
\<close>

theorem exp_field_drops_extra_children:
  assumes "type n = ''exp_field''"
    and "nonFormattingChildren n = a # b # c # rest"
  shows "default_dispatch lst (Some n) = Inr (Some printExpressionField)
    \<and> printExpressionField (Some n) options print
      = Inr (Group (Concat [print (Some a), Text '': '', print (Some b)]) False)"
  using assms by (simp add: path_map_def at_index_def group_doc_def)

theorem exp_field_drops_extra_children_witness:
  "printExpressionField
     (Some (Node ''exp_field'' ''f: 1 2''
        [leaf ''field_identifier'' ''f'', leaf '':'' '':'', leaf ''num_literal'' ''1'',
         leaf ''num_literal'' ''2'']
        [leaf ''field_identifier'' ''f'', leaf ''num_literal'' ''1'',
         leaf ''num_literal'' ''2''] None None 0 0))
     () ex_print
   = Inr (Group (Concat [Text ''f'', Text '': '', Text ''1'']) False)"
  using exp_field_drops_extra_children
    [of "Node ''exp_field'' ''f: 1 2''
           [leaf ''field_identifier'' ''f'', leaf '':'' '':'', leaf ''num_literal'' ''1'',
            leaf ''num_literal'' ''2'']
           [leaf ''field_identifier'' ''f'', leaf ''num_literal'' ''1'',
            leaf ''num_literal'' ''2''] None None 0 0"
        "leaf ''field_identifier'' ''f''" "leaf ''num_literal'' ''1''"
        "leaf ''num_literal'' ''2''" "[]" ex_list "()" ex_print]
  by (simp add: ex_print_def leaf_def)

end
